theory Spec2Isabelle
  imports Main "HOL-Library.Sublist"
begin

section \<open>The clip request handler of backend/src/index.ts\<close>

text \<open>
  The service has one non-trivial route, \<^verbatim>\<open>POST /api/clip\<close>. Its handler validates three
  body fields, builds the argument list of the external tool \<^verbatim>\<open>yt-dlp\<close>, spawns it,
  accumulates its output, inspects the exit code and the output file, sends the file and
  removes the temporary files. Everything the handler does to the outside (console lines,
  the spawn call, calls on the response object, unlink calls) is returned in order as a
  list of effects; the file system is a map from paths to files, passed in and returned;
  what the environment decides (the clock, the behaviour of the external tool, the
  outcome of the transfer) is a parameter.
\<close>

subsection \<open>JavaScript values of the request body\<close>

text \<open>
  A number as \<^verbatim>\<open>JSON.parse\<close> delivers it is a double. The handler observes two things of
  it: whether it is falsy, and the text that \<^verbatim>\<open>Number.prototype.toString\<close> gives for it.
  The falsy numbers that JSON can denote are 0 and -0, both printed \<^verbatim>\<open>0\<close> (JSON has no
  NaN). Any other number is known here by its text, which determines it: 10 is \<^verbatim>\<open>10\<close>,
  1.5 is \<^verbatim>\<open>1.5\<close>, 1e21 is \<^verbatim>\<open>1e+21\<close>, 2^60 is \<^verbatim>\<open>1152921504606847000\<close>.
\<close>

datatype jsnum = Zero | NonZero string

text \<open>
  A body field is absent (\<open>JUndefined\<close>) or holds a JSON value. \<open>JObj\<close> is an object with
  no own property named \<^verbatim>\<open>toString\<close>: whatever its properties, a template literal prints
  it as \<^verbatim>\<open>[object Object]\<close>. An object that has such a property cannot be converted to
  a string at all (the conversion throws a \<^verbatim>\<open>TypeError\<close>) and is not a value of this
  type.
\<close>

datatype jsval =
  JUndefined | JNull | JBool bool | JNum jsnum | JStr string | JArr "jsval list" | JObj

text \<open>Truthiness, as tested by the operator \<^verbatim>\<open>!\<close>.\<close>

fun truthy :: "jsval \<Rightarrow> bool" where
  "truthy JUndefined = False"
| "truthy JNull = False"
| "truthy (JBool b) = b"
| "truthy (JNum Zero) = False"
| "truthy (JNum (NonZero t)) = True"
| "truthy (JStr s) = (s \<noteq> [])"
| "truthy (JArr xs) = True"
| "truthy JObj = True"

text \<open>
  The decimal numeral of an integer, as a template literal prints the timestamp and the
  exit code of a process: both are integers far below 2^53 in magnitude, which are
  printed in full. \<open>digit_char\<close> is only applied to numbers below 10.
\<close>

definition digit_char :: "nat \<Rightarrow> char" where
  "digit_char d = ''0123456789'' ! d"

function string_of_nat :: "nat \<Rightarrow> string" where
  "string_of_nat n =
     (if n < 10 then [digit_char n] else string_of_nat (n div 10) @ [digit_char (n mod 10)])"
  by pat_completeness auto
termination
  by (relation "measure (\<lambda>n. n)") auto

declare string_of_nat.simps [simp del]

definition string_of_int :: "int \<Rightarrow> string" where
  "string_of_int i =
     (if i < 0 then CHR ''-'' # string_of_nat (nat (- i)) else string_of_nat (nat i))"

text \<open>
  The string a value contributes to a template literal \<^verbatim>\<open>`${v}`\<close>. An array is printed
  by \<^verbatim>\<open>Array.prototype.join\<close>: its elements separated by commas, \<^verbatim>\<open>null\<close> and
  \<^verbatim>\<open>undefined\<close> elements printed as nothing.
\<close>

fun to_string :: "jsval \<Rightarrow> string" and join_elements :: "jsval list \<Rightarrow> string" where
  "to_string JUndefined = ''undefined''"
| "to_string JNull = ''null''"
| "to_string (JBool b) = (if b then ''true'' else ''false'')"
| "to_string (JNum Zero) = ''0''"
| "to_string (JNum (NonZero t)) = t"
| "to_string (JStr s) = s"
| "to_string (JArr xs) = join_elements xs"
| "to_string JObj = ''[object Object]''"
| "join_elements [] = []"
| "join_elements [x] = (if x = JNull \<or> x = JUndefined then [] else to_string x)"
| "join_elements (x # y # ys) =
     (if x = JNull \<or> x = JUndefined then [] else to_string x) @ '','' @ join_elements (y # ys)"

text \<open>\<^verbatim>\<open>s.includes(pat)\<close>: \<open>pat\<close> occurs in \<open>s\<close> as a contiguous block.\<close>

fun str_includes :: "string \<Rightarrow> string \<Rightarrow> bool" where
  "str_includes [] pat = (pat = [])"
| "str_includes (c # cs) pat = (prefix pat (c # cs) \<or> str_includes cs pat)"

subsection \<open>File system, effects, environment\<close>

text \<open>
  A file has its content and, when the operating system refuses the operation, the
  message of the error that \<^verbatim>\<open>readFileSync\<close> throws or \<^verbatim>\<open>unlink\<close> rejects with.
\<close>

record fnode =
  content :: string
  read_error :: "string option"
  unlink_error :: "string option"

type_synonym filesys = "string \<rightharpoonup> fnode"

definition existsSync :: "filesys \<Rightarrow> string \<Rightarrow> bool" where
  "existsSync fs p = (fs p \<noteq> None)"

datatype level = LOG | WARN | ERROR

text \<open>
  The effects of the handler. A console call with an error object as second argument is
  recorded with that error's message appended to the first argument.
\<close>

datatype effect =
    Console level string
  | Spawn string "jsval list"
  | Unlink string
  | Status_Json nat "(string \<times> string) list"
  | Download string string

text \<open>A chunk delivered by a \<^verbatim>\<open>data\<close> event of the child's stderr or stdout.\<close>

datatype chunk = Stderr_data string | Stdout_data string

text \<open>
  How a run of the child ends: the \<^verbatim>\<open>close\<close> event with the exit code (\<^verbatim>\<open>null\<close> when a
  signal ended the process); the \<^verbatim>\<open>error\<close> event with the message of its error, which the
  runtime emits when the process cannot be started and follows, once the streams are
  closed, by a \<^verbatim>\<open>close\<close> event with the code given second; or neither event ever.
\<close>

datatype proc_end = Close "int option" | Error_event string "int option" | Never

record proc_run =
  chunks :: "chunk list"
  ending :: proc_end
  files_after :: filesys

text \<open>
  The environment of one request: the value of \<^verbatim>\<open>Date.now()\<close> (milliseconds since 1970,
  an integer that stays below 8.64e15), the behaviour of
  \<^verbatim>\<open>spawn("yt-dlp", args)\<close> on the current file system (\<open>Inl\<close> when the call itself
  throws), and the error handed to the callback of \<^verbatim>\<open>res.download\<close> (\<open>None\<close> when
  the transfer completed).
\<close>

record env =
  now :: nat
  spawn :: "jsval list \<Rightarrow> filesys \<Rightarrow> string + proc_run"
  send_error :: "string option"

record config =
  uploadsDir :: string
  cookiesFilePath :: string

text \<open>\<^verbatim>\<open>req.body\<close> after destructuring.\<close>

record request =
  url :: jsval
  startTime :: jsval
  endTime :: jsval

text \<open>
  An \<^verbatim>\<open>Error\<close> object: its message and, when present as strings, its \<^verbatim>\<open>details\<close> and
  \<^verbatim>\<open>stderr\<close> properties. Every value thrown inside the handler's \<^verbatim>\<open>try\<close> block is one.
\<close>

record thrown =
  message :: string
  details :: "string option"
  stderr :: "string option"

definition new_Error :: "string \<Rightarrow> thrown" where
  "new_Error m = \<lparr>message = m, details = None, stderr = None\<rparr>"

subsection \<open>The handler, block by block\<close>

text \<open>\<^verbatim>\<open>path.join(uploadsDir, `clip-${timestamp}.mp4`)\<close> on a normalised directory path.\<close>

definition outputPath_of :: "config \<Rightarrow> nat \<Rightarrow> string" where
  "outputPath_of cfg timestamp =
     uploadsDir cfg @ ''/'' @ ''clip-'' @ string_of_nat timestamp @ ''.mp4''"

definition section_of :: "jsval \<Rightarrow> jsval \<Rightarrow> string" where
  "section_of st et = ''*'' @ to_string st @ ''-'' @ to_string et"

definition format_selector :: string where
  "format_selector = ''bestvideo[protocol=https][ext=mp4]+bestaudio[protocol=https][ext=m4a]/bestvideo[protocol=https][ext=webm]+bestaudio[protocol=https][ext=webm]/bestvideo[ext=mp4]+bestaudio[ext=m4a]/bestvideo[ext=webm]+bestaudio[ext=webm]/best''"

definition ytDlpArgs :: "jsval \<Rightarrow> string \<Rightarrow> string \<Rightarrow> jsval list" where
  "ytDlpArgs u section outputPath =
     [u,
      JStr ''-f'',
      JStr format_selector,
      JStr ''--download-sections'',
      JStr section,
      JStr ''-o'',
      JStr outputPath,
      JStr ''--no-check-certificates'',
      JStr ''--no-warnings'',
      JStr ''--add-header'',
      JStr ''referer:youtube.com'',
      JStr ''--add-header'',
      JStr ''user-agent:Mozilla/5.0 (Windows NT 10.0; Win64; x64) AppleWebKit/537.36 (KHTML, like Gecko) Chrome/124.0.0.0 Safari/537.36'',
      JStr ''--merge-output-format'',
      JStr ''mp4'',
      JStr ''--verbose'',
      JStr ''--no-playlist'',
      JStr ''--extractor-retries'', JStr ''3'',
      JStr ''--ignore-errors'',
      JStr ''--no-check-certificate'',
      JStr ''--geo-bypass'']"

text \<open>
  The conditional attachment of the cookies file (lines 76 to 91): the argument list
  after it and the console lines it writes.
\<close>

definition attach_cookies :: "config \<Rightarrow> jsval list \<Rightarrow> filesys \<Rightarrow> jsval list \<times> effect list" where
  "attach_cookies cfg args fs =
     (let p = cookiesFilePath cfg in
      case fs p of
        None \<Rightarrow>
          (args, [Console WARN (''Cookies file not found at '' @ p @ ''. Proceeding without cookies.'')])
      | Some f \<Rightarrow>
          (let l1 = Console LOG (''Using cookies from: '' @ p) in
           case read_error f of
             Some m \<Rightarrow> (args, [l1, Console ERROR (''Error reading cookies file: '' @ m)])
           | None \<Rightarrow>
               (let l2 = Console LOG (''Cookies file loaded successfully. Size: ''
                                  @ string_of_nat (length (content f)) @ '' bytes'');
                    l3 = (if length (content f) < 10
                          then [Console WARN ''Warning: Cookies file seems too small and may be invalid'']
                          else [])
                in (args @ [JStr ''--cookies'', JStr p], [l1, l2] @ l3))))"

text \<open>The two \<^verbatim>\<open>data\<close> listeners: one console line per chunk, stderr accumulated.\<close>

fun data_log :: "chunk \<Rightarrow> effect" where
  "data_log (Stderr_data d) = Console ERROR (''yt-dlp stderr: '' @ d)"
| "data_log (Stdout_data d) = Console LOG (''yt-dlp stdout: '' @ d)"

fun processStderr :: "chunk list \<Rightarrow> string" where
  "processStderr [] = []"
| "processStderr (Stderr_data d # cs) = d @ processStderr cs"
| "processStderr (Stdout_data d # cs) = processStderr cs"

definition code_string :: "int option \<Rightarrow> string" where
  "code_string code = (case code of None \<Rightarrow> ''null'' | Some c \<Rightarrow> string_of_int c)"

definition bot_phrase :: string where
  "bot_phrase = ''Sign in to confirm you're not a bot''"

definition credential_message :: string where
  "credential_message = ''YouTube bot detection triggered. The cookies file may be expired or invalid.''"

definition generic_message :: "int option \<Rightarrow> string \<Rightarrow> string" where
  "generic_message code err = ''yt-dlp failed with code '' @ code_string code @ ''. Stderr: '' @ err"

definition missing_output_message :: "string \<Rightarrow> string" where
  "missing_output_message err =
     ''yt-dlp indicated success, but no output file was found. Stderr: '' @ err"

text \<open>\<^verbatim>\<open>fs.existsSync(p) && fs.statSync(p).size > 0\<close>\<close>

definition nonempty_file :: "filesys \<Rightarrow> string \<Rightarrow> bool" where
  "nonempty_file fs p =
     (existsSync fs p \<and> (case fs p of None \<Rightarrow> False | Some f \<Rightarrow> 0 < length (content f)))"

text \<open>
  The listener of the \<^verbatim>\<open>close\<close> event (lines 110 to 130): \<open>Inr ()\<close> is \<^verbatim>\<open>resolve()\<close>,
  \<open>Inl e\<close> is \<^verbatim>\<open>reject(e)\<close>.
\<close>

definition on_close :: "string \<Rightarrow> int option \<Rightarrow> string \<Rightarrow> filesys \<Rightarrow> (thrown + unit) \<times> effect list" where
  "on_close outputPath code err fs =
     (if code = Some 0 then
        (if nonempty_file fs outputPath
         then (Inr (), [Console LOG (''yt-dlp download and clip successful: '' @ outputPath)])
         else (Inl (new_Error (missing_output_message err)),
               [Console ERROR (''yt-dlp exited code 0 but output file missing or empty: ''
                        @ outputPath)]))
      else
        (let l = Console ERROR (''yt-dlp process exited with code '' @ code_string code
                           @ ''. Stderr: '' @ err) in
         if str_includes err bot_phrase \<or> str_includes err ''cookies''
         then (Inl (new_Error credential_message), [l])
         else (Inl (new_Error (generic_message code err)), [l])))"

text \<open>
  The promise awaited at line 109, once the child has run: \<open>None\<close> when neither listener
  is ever called, so that the promise never settles.
\<close>

definition child_promise :: "string \<Rightarrow> proc_run \<Rightarrow> (thrown + unit) option \<times> effect list" where
  "child_promise outputPath run =
     (case ending run of
        Never \<Rightarrow> (None, [])
      | Error_event m code \<Rightarrow>
          (Some (Inl (new_Error (''Failed to start yt-dlp: '' @ m))),
           [Console ERROR (''Failed to start yt-dlp process: '' @ m)])
      | Close code \<Rightarrow>
          (case on_close outputPath code (processStderr (chunks run)) (files_after run) of
             (r, ls) \<Rightarrow> (Some r, ls)))"

text \<open>
  The \<^verbatim>\<open>close\<close> event that follows an \<^verbatim>\<open>error\<close> event finds the promise settled: the
  listener of lines 110 to 130 runs once more, its \<^verbatim>\<open>resolve\<close> or \<^verbatim>\<open>reject\<close> has no effect,
  and only its console lines remain. By then the \<^verbatim>\<open>catch\<close> block has answered.
\<close>

definition late_close :: "string \<Rightarrow> proc_run \<Rightarrow> effect list" where
  "late_close outputPath run =
     (case ending run of
        Error_event m code \<Rightarrow>
          snd (on_close outputPath code (processStderr (chunks run)) (files_after run))
      | Close code \<Rightarrow> []
      | Never \<Rightarrow> [])"

text \<open>
  \<^verbatim>\<open>if (fs.existsSync(p)) { await unlinkAsync(p); }\<close>: the effects, \<open>Inl m\<close> when the
  promise of \<^verbatim>\<open>unlinkAsync\<close> rejects, and the file system afterwards.
\<close>

definition unlink_if_exists :: "string \<Rightarrow> filesys \<Rightarrow> effect list \<times> (string + unit) \<times> filesys" where
  "unlink_if_exists p fs =
     (case fs p of
        None \<Rightarrow> ([], Inr (), fs)
      | Some f \<Rightarrow>
          (case unlink_error f of
             Some m \<Rightarrow> ([Unlink p], Inl m, fs)
           | None \<Rightarrow> ([Unlink p], Inr (), fs(p := None))))"

text \<open>The \<^verbatim>\<open>try\<close>/\<^verbatim>\<open>catch\<close> of the cleanup (lines 147 to 160).\<close>

definition cleanup :: "string \<Rightarrow> filesys \<Rightarrow> effect list \<times> filesys" where
  "cleanup outputPath fs =
     (case unlink_if_exists outputPath fs of
        (t1, Inl m, fs1) \<Rightarrow> (t1 @ [Console ERROR (''Cleanup error: '' @ m)], fs1)
      | (t1, Inr u, fs1) \<Rightarrow>
          (let partFilePath = outputPath @ ''.part'' in
           case unlink_if_exists partFilePath fs1 of
             (t2, Inl m, fs2) \<Rightarrow> (t1 @ t2 @ [Console ERROR (''Cleanup error: '' @ m)], fs2)
           | (t2, Inr u', fs2) \<Rightarrow>
               (t1 @ t2 @ [Console LOG ''Temporary file cleanup finished.''], fs2)))"

text \<open>The callback given to \<^verbatim>\<open>res.download\<close> (lines 141 to 161).\<close>

definition download_callback :: "string \<Rightarrow> string option \<Rightarrow> filesys \<Rightarrow> effect list \<times> filesys" where
  "download_callback outputPath err fs =
     (let l = (case err of
                 None \<Rightarrow> []
               | Some m \<Rightarrow> [Console ERROR (''Error sending file: '' @ m)])
      in case cleanup outputPath fs of (t, fs') \<Rightarrow> (l @ t, fs'))"

definition res_download :: "env \<Rightarrow> string \<Rightarrow> filesys \<Rightarrow> effect list \<times> filesys" where
  "res_download e outputPath fs =
     (case download_callback outputPath (send_error e) fs of
        (t, fs') \<Rightarrow> (Download outputPath ''clip.mp4'' # t, fs'))"

text \<open>
  The \<^verbatim>\<open>catch\<close> block (lines 162 to 186). The field \<^verbatim>\<open>fullError\<close> holds the serialised own
  properties of the error object, stack trace included; its rendering
  \<^verbatim>\<open>JSON.stringify(error, ...)\<close> is a parameter.
\<close>

definition error_details :: "thrown \<Rightarrow> string" where
  "error_details e =
     (case details e of
        Some d \<Rightarrow> d
      | None \<Rightarrow> (case stderr e of Some s \<Rightarrow> s | None \<Rightarrow> ''No additional details.''))"

definition catch_block :: "(thrown \<Rightarrow> string) \<Rightarrow> thrown \<Rightarrow> effect list" where
  "catch_block stringify e =
     (let errorMessage = message e;
          errorDetails = error_details e
      in [Console ERROR (''Error during video processing: '' @ message e),
          Status_Json 500
            [(''error'', errorMessage), (''details'', errorDetails),
             (''fullError'', stringify e)]])"

text \<open>
  How the \<^verbatim>\<open>try\<close> block ends: it completes (by \<^verbatim>\<open>return\<close> or by reaching its end), it
  throws, or it stays suspended at the \<^verbatim>\<open>await\<close> for ever. \<open>Threw\<close> carries the error and
  the effects of the listeners that are called after the \<^verbatim>\<open>catch\<close> block has run.
\<close>

datatype completion = Completed | Threw thrown "effect list" | Suspended

definition missing_fields_body :: "(string \<times> string) list" where
  "missing_fields_body = [(''error'', ''url, startTime, and endTime are required'')]"

text \<open>The argument list handed to \<^verbatim>\<open>spawn\<close> at line 94.\<close>

definition spawn_args :: "config \<Rightarrow> env \<Rightarrow> request \<Rightarrow> filesys \<Rightarrow> jsval list" where
  "spawn_args cfg e req fs =
     fst (attach_cookies cfg
            (ytDlpArgs (url req) (section_of (startTime req) (endTime req))
               (outputPath_of cfg (now e))) fs)"

definition try_block ::
  "config \<Rightarrow> env \<Rightarrow> request \<Rightarrow> string \<Rightarrow> filesys \<Rightarrow> completion \<times> effect list \<times> filesys" where
  "try_block cfg e req outputPath fs =
     (if \<not> truthy (url req) \<or> \<not> truthy (startTime req) \<or> \<not> truthy (endTime req)
      then (Completed, [Status_Json 400 missing_fields_body], fs)
      else
        (let t1 = [Console LOG (''Attempting to download and clip video from ''
                      @ to_string (url req)),
                   Console LOG (''Output path: '' @ outputPath)];
             section = section_of (startTime req) (endTime req);
             (args, t2) = attach_cookies cfg (ytDlpArgs (url req) section outputPath) fs;
             t3 = t1 @ t2 @ [Spawn ''yt-dlp'' args]
         in case spawn e args fs of
              Inl m \<Rightarrow> (Threw (new_Error m) [], t3, fs)
            | Inr run \<Rightarrow>
                (let t4 = t3 @ map data_log (chunks run);
                     fs1 = files_after run
                 in case child_promise outputPath run of
                      (None, t5) \<Rightarrow> (Suspended, t4 @ t5, fs1)
                    | (Some (Inl err), t5) \<Rightarrow>
                        (Threw err (late_close outputPath run), t4 @ t5, fs1)
                    | (Some (Inr u), t5) \<Rightarrow>
                        (case res_download e outputPath fs1 of
                           (t6, fs2) \<Rightarrow>
                             (Completed,
                              t4 @ t5
                                @ [Console LOG (''Processing complete. Clip available at: ''
                                      @ outputPath)]
                                @ t6,
                              fs2)))))"

text \<open>
  The handler of \<^verbatim>\<open>POST /api/clip\<close> (lines 27 to 187), run on a file system: the effects
  of the request in order, and the file system it leaves.
\<close>

definition handler ::
  "config \<Rightarrow> (thrown \<Rightarrow> string) \<Rightarrow> env \<Rightarrow> request \<Rightarrow> filesys \<Rightarrow> effect list \<times> filesys" where
  "handler cfg stringify e req fs =
     (let timestamp = now e;
          outputPath = outputPath_of cfg timestamp
      in case try_block cfg e req outputPath fs of
           (Completed, t, fs') \<Rightarrow> (t, fs')
         | (Suspended, t, fs') \<Rightarrow> (t, fs')
         | (Threw err late, t, fs') \<Rightarrow> (t @ catch_block stringify err @ late, fs'))"

subsection \<open>Observations on the effects of a request\<close>

fun is_Spawn :: "effect \<Rightarrow> bool" where
  "is_Spawn (Spawn c a) = True"
| "is_Spawn x = False"

fun is_Unlink :: "effect \<Rightarrow> bool" where
  "is_Unlink (Unlink p) = True"
| "is_Unlink x = False"

fun is_Json :: "effect \<Rightarrow> bool" where
  "is_Json (Status_Json n b) = True"
| "is_Json x = False"

fun is_Download :: "effect \<Rightarrow> bool" where
  "is_Download (Download p n) = True"
| "is_Download x = False"

fun is_Console :: "effect \<Rightarrow> bool" where
  "is_Console (Console l s) = True"
| "is_Console x = False"

text \<open>A request that passes the validation of lines 35 to 39.\<close>

definition valid_request :: "request \<Rightarrow> bool" where
  "valid_request req = (truthy (url req) \<and> truthy (startTime req) \<and> truthy (endTime req))"

text \<open>The effects of a valid request up to and including the call of \<^verbatim>\<open>spawn\<close>.\<close>

definition before_spawn :: "config \<Rightarrow> env \<Rightarrow> request \<Rightarrow> filesys \<Rightarrow> effect list" where
  "before_spawn cfg e req fs =
     [Console LOG (''Attempting to download and clip video from '' @ to_string (url req)),
      Console LOG (''Output path: '' @ outputPath_of cfg (now e))]
     @ snd (attach_cookies cfg
              (ytDlpArgs (url req) (section_of (startTime req) (endTime req))
                 (outputPath_of cfg (now e))) fs)
     @ [Spawn ''yt-dlp'' (spawn_args cfg e req fs)]"



text \<open>
  What it is for a string to be the decimal numeral of an integer, said without the
  function that prints one: a minus sign exactly for a negative number, then digits only,
  at least one, no leading zero but in \<^verbatim>\<open>0\<close> itself, whose value read in base ten is the
  magnitude of the number.
\<close>

definition decimal_digits :: "string \<Rightarrow> bool" where
  "decimal_digits ds =
     (ds \<noteq> [] \<and> list_all (\<lambda>ch. ch \<in> set ''0123456789'') ds
      \<and> (hd ds = CHR ''0'' \<longrightarrow> ds = ''0''))"

definition numeral_value :: "string \<Rightarrow> nat" where
  "numeral_value ds = foldl (\<lambda>a ch. 10 * a + (of_char ch - 48)) 0 ds"

definition canonical_numeral :: "string \<Rightarrow> int \<Rightarrow> bool" where
  "canonical_numeral s c =
     (if c < 0
      then s \<noteq> [] \<and> hd s = CHR ''-'' \<and> decimal_digits (tl s)
           \<and> int (numeral_value (tl s)) = - c
      else decimal_digits s \<and> int (numeral_value s) = c)"

text \<open>
  The two outcomes a client can see: the file was handed to \<^verbatim>\<open>res.download\<close> and the
  transfer reported no error; exactly one JSON error response was written.
\<close>

definition file_streamed :: "env \<Rightarrow> effect list \<Rightarrow> bool" where
  "file_streamed e t = (filter is_Download t \<noteq> [] \<and> send_error e = None)"

definition error_returned :: "effect list \<Rightarrow> bool" where
  "error_returned t = (length (filter is_Json t) = 1)"

subsection \<open>Concrete requests and environments\<close>

definition cfg0 :: config where
  "cfg0 = \<lparr>uploadsDir = ''/srv/backend/uploads'',
           cookiesFilePath = ''/srv/backend/src/cookies.txt''\<rparr>"

definition req0 :: request where
  "req0 = \<lparr>url = JStr ''https://example.com/video'', startTime = JStr ''00:00:10'',
            endTime = JStr ''00:00:20''\<rparr>"

definition req_missing :: request where
  "req_missing = \<lparr>url = JStr ''https://example.com/video'', startTime = JStr ''00:00:10'',
                   endTime = JUndefined\<rparr>"

definition req_zero :: request where
  "req_zero = \<lparr>url = JStr ''https://example.com/video'', startTime = JNum Zero,
                endTime = JStr ''00:00:20''\<rparr>"




definition no_files :: filesys where
  "no_files = Map.empty"

definition plain_file :: "string \<Rightarrow> fnode" where
  "plain_file c = \<lparr>content = c, read_error = None, unlink_error = None\<rparr>"

definition locked_file :: fnode where
  "locked_file = \<lparr>content = ''video'', read_error = None,
                   unlink_error = Some ''EPERM: operation not permitted''\<rparr>"


definition out0 :: string where
  "out0 = ''/srv/backend/uploads/clip-1700000000000.mp4''"

definition run_hung :: proc_run where
  "run_hung = \<lparr>chunks = [], ending = Never, files_after = Map.empty\<rparr>"


definition run_unavailable :: proc_run where
  "run_unavailable = \<lparr>chunks = [Stderr_data ''ERROR: Video '', Stdout_data ''[youtube] x'',
                                 Stderr_data ''unavailable''],
                       ending = Close (Some 1), files_after = Map.empty\<rparr>"



definition run_enoent :: proc_run where
  "run_enoent = \<lparr>chunks = [], ending = Error_event ''spawn yt-dlp ENOENT'' (Some (- 2)),
                  files_after = Map.empty\<rparr>"

definition run_ok :: proc_run where
  "run_ok = \<lparr>chunks = [], ending = Close (Some 0),
              files_after = [out0 \<mapsto> plain_file ''video'']\<rparr>"

definition run_locked :: proc_run where
  "run_locked = \<lparr>chunks = [], ending = Close (Some 0),
                  files_after = [out0 \<mapsto> locked_file, out0 @ ''.part'' \<mapsto> plain_file ''x'']\<rparr>"

definition run_failed :: proc_run where
  "run_failed = \<lparr>chunks = [Stderr_data ''ERROR: network unreachable''], ending = Close (Some 1),
                  files_after = [out0 @ ''.part'' \<mapsto> plain_file ''partial'']\<rparr>"

text \<open>An environment whose external tool behaves the same whatever its arguments.\<close>

definition env_of :: "proc_run \<Rightarrow> string option \<Rightarrow> env" where
  "env_of run err = \<lparr>now = 1700000000000, spawn = (\<lambda>args fs. Inr run), send_error = err\<rparr>"

definition sfy0 :: "thrown \<Rightarrow> string" where
  "sfy0 err = ''{}''"

section \<open>Properties\<close>

subsection \<open>Auxiliary facts\<close>

lemma handler_falsy:
  assumes "\<not> valid_request req"
  shows "handler cfg sfy e req fs = ([Status_Json 400 missing_fields_body], fs)"
  using assms by (simp add: handler_def try_block_def valid_request_def)

lemma handler_spawn_throws:
  assumes "valid_request req" and "spawn e (spawn_args cfg e req fs) fs = Inl m"
  shows "handler cfg sfy e req fs = (before_spawn cfg e req fs @ catch_block sfy (new_Error m), fs)"
  using assms
  by (simp add: handler_def try_block_def valid_request_def spawn_args_def before_spawn_def
      Let_def split_beta)

lemma handler_child:
  assumes "valid_request req" and "spawn e (spawn_args cfg e req fs) fs = Inr run"
  shows "handler cfg sfy e req fs =
     (case child_promise (outputPath_of cfg (now e)) run of
        (None, t5) \<Rightarrow> (before_spawn cfg e req fs @ map data_log (chunks run) @ t5, files_after run)
      | (Some (Inl err), t5) \<Rightarrow>
          (before_spawn cfg e req fs @ map data_log (chunks run) @ t5 @ catch_block sfy err
             @ late_close (outputPath_of cfg (now e)) run,
           files_after run)
      | (Some (Inr u), t5) \<Rightarrow>
          (before_spawn cfg e req fs @ map data_log (chunks run) @ t5
             @ [Console LOG (''Processing complete. Clip available at: '' @ outputPath_of cfg (now e))]
             @ fst (res_download e (outputPath_of cfg (now e)) (files_after run)),
           snd (res_download e (outputPath_of cfg (now e)) (files_after run))))"
  using assms
  by (simp add: handler_def try_block_def valid_request_def spawn_args_def before_spawn_def
      Let_def split_beta split: option.splits sum.splits)

lemma consoles_filter:
  assumes "\<forall>x\<in>set t. is_Console x" and "\<And>l s. \<not> P (Console l s)"
  shows "filter P t = []"
proof -
  have "\<not> P x" if "x \<in> set t" for x
  proof -
    from that assms(1) have "is_Console x" by blast
    then obtain l s where "x = Console l s" by (cases x) auto
    then show ?thesis by (simp add: assms(2))
  qed
  then show ?thesis by (simp add: filter_empty_conv)
qed

lemma attach_cookies_consoles: "\<forall>x\<in>set (snd (attach_cookies cfg a fs)). is_Console x"
  by (simp add: attach_cookies_def Let_def split: option.splits)

lemma data_log_consoles: "\<forall>x\<in>set (map data_log cs). is_Console x"
proof (induction cs)
  case Nil
  show ?case by simp
next
  case (Cons c cs)
  then show ?case by (cases c) simp_all
qed

lemma on_close_consoles: "\<forall>x\<in>set (snd (on_close p code err fs)). is_Console x"
  by (simp add: on_close_def Let_def)

lemma child_promise_consoles: "\<forall>x\<in>set (snd (child_promise p run)). is_Console x"
  by (simp add: child_promise_def split_beta on_close_consoles split: proc_end.splits)

lemma late_close_consoles: "\<forall>x\<in>set (late_close p run). is_Console x"
  using on_close_consoles [of p _ "processStderr (chunks run)" "files_after run"]
  by (cases "ending run") (simp_all add: late_close_def)

lemma str_includes_iff: "str_includes s pat \<longleftrightarrow> (\<exists>a b. s = a @ pat @ b)"
proof (induction s)
  case Nil
  show ?case by simp
next
  case (Cons c cs)
  show ?case
  proof
    assume "str_includes (c # cs) pat"
    then consider "prefix pat (c # cs)" | "str_includes cs pat" by auto
    then show "\<exists>a b. c # cs = a @ pat @ b"
    proof cases
      case 1
      then obtain b where "c # cs = pat @ b" by (auto simp: prefix_def)
      then have "c # cs = [] @ pat @ b" by simp
      then show ?thesis by blast
    next
      case 2
      with Cons.IH obtain a b where "cs = a @ pat @ b" by blast
      then have "c # cs = (c # a) @ pat @ b" by simp
      then show ?thesis by blast
    qed
  next
    assume "\<exists>a b. c # cs = a @ pat @ b"
    then obtain a b where ab: "c # cs = a @ pat @ b" by blast
    show "str_includes (c # cs) pat"
    proof (cases a)
      case Nil
      with ab have "prefix pat (c # cs)" by (simp add: prefix_def)
      then show ?thesis by simp
    next
      case (Cons x a')
      with ab have "cs = a' @ pat @ b" by simp
      with Cons.IH have "str_includes cs pat" by blast
      then show ?thesis by simp
    qed
  qed
qed



lemma cleanup_effects:
  "\<forall>x\<in>set (fst (cleanup p fs)). is_Console x \<or> is_Unlink x"
  by (auto simp: cleanup_def unlink_if_exists_def Let_def split: option.splits)

lemma quiet_filter:
  assumes "\<forall>x\<in>set t. is_Console x \<or> is_Unlink x"
    and "\<And>l s. \<not> P (Console l s)" and "\<And>p. \<not> P (Unlink p)"
  shows "filter P t = []"
proof -
  have "\<not> P x" if "x \<in> set t" for x
  proof -
    from that assms(1) have "is_Console x \<or> is_Unlink x" by blast
    then show ?thesis by (cases x) (simp_all add: assms(2,3))
  qed
  then show ?thesis by (simp add: filter_empty_conv)
qed

lemma res_download_effects:
  "\<exists>t. fst (res_download e p fs) = Download p ''clip.mp4'' # t
        \<and> (\<forall>x\<in>set t. is_Console x \<or> is_Unlink x)"
  using cleanup_effects [of p fs]
  by (auto simp: res_download_def download_callback_def split_beta split: option.splits)

lemma before_spawn_filter:
  assumes "\<And>l s. \<not> P (Console l s)"
  shows "filter P (before_spawn cfg e req fs)
           = (if P (Spawn ''yt-dlp'' (spawn_args cfg e req fs))
              then [Spawn ''yt-dlp'' (spawn_args cfg e req fs)] else [])"
  by (simp add: before_spawn_def assms consoles_filter [OF attach_cookies_consoles])

lemma data_log_filter:
  assumes "\<And>l s. \<not> P (Console l s)"
  shows "filter P (map data_log cs) = []"
  by (rule consoles_filter [OF data_log_consoles]) (rule assms)

lemma child_promise_filter:
  assumes "\<And>l s. \<not> P (Console l s)"
  shows "filter P (snd (child_promise p run)) = []"
  by (rule consoles_filter [OF child_promise_consoles]) (rule assms)

lemma late_close_filter:
  assumes "\<And>l s. \<not> P (Console l s)"
  shows "filter P (late_close p run) = []"
  by (rule consoles_filter [OF late_close_consoles]) (rule assms)

lemma res_download_filter:
  assumes "\<And>l s. \<not> P (Console l s)" and "\<And>q. \<not> P (Unlink q)"
  shows "filter P (fst (res_download e p fs))
           = (if P (Download p ''clip.mp4'') then [Download p ''clip.mp4''] else [])"
proof -
  obtain t where t: "fst (res_download e p fs) = Download p ''clip.mp4'' # t"
    and q: "\<forall>x\<in>set t. is_Console x \<or> is_Unlink x"
    using res_download_effects by blast
  have "filter P t = []" using q assms by (rule quiet_filter)
  then show ?thesis by (simp add: t)
qed

lemma catch_block_Json:
  "filter is_Json (catch_block sfy err)
     = [Status_Json 500 [(''error'', message err), (''details'', error_details err),
                         (''fullError'', sfy err)]]"
  by (simp add: catch_block_def)

lemma catch_block_others:
  "filter is_Download (catch_block sfy err) = []"
  "filter is_Spawn (catch_block sfy err) = []"
  "filter is_Unlink (catch_block sfy err) = []"
  by (simp_all add: catch_block_def)

lemma new_Error_simps [simp]:
  "message (new_Error m) = m" "error_details (new_Error m) = ''No additional details.''"
  by (simp_all add: new_Error_def error_details_def)

lemma nonempty_file_iff:
  "nonempty_file fs p \<longleftrightarrow> (\<exists>f. fs p = Some f \<and> content f \<noteq> [])"
  by (auto simp: nonempty_file_def existsSync_def split: option.splits)

lemma child_promise_never:
  "ending run = Never \<Longrightarrow> fst (child_promise p run) = None"
  by (simp add: child_promise_def)

lemma child_promise_error_event:
  "ending run = Error_event m c
   \<Longrightarrow> fst (child_promise p run) = Some (Inl (new_Error (''Failed to start yt-dlp: '' @ m)))"
  by (simp add: child_promise_def)

lemma child_promise_verified:
  "ending run = Close (Some 0) \<Longrightarrow> nonempty_file (files_after run) p
   \<Longrightarrow> fst (child_promise p run) = Some (Inr ())"
  by (simp add: child_promise_def on_close_def)


lemma child_promise_nonzero:
  "ending run = Close code \<Longrightarrow> code \<noteq> Some 0
   \<Longrightarrow> fst (child_promise p run)
       = Some (Inl (new_Error
            (if str_includes (processStderr (chunks run)) bot_phrase
                \<or> str_includes (processStderr (chunks run)) ''cookies''
             then credential_message
             else generic_message code (processStderr (chunks run)))))"
  by (simp add: child_promise_def on_close_def Let_def)

text \<open>The effects and the file system of the handler, by the way the request ends.\<close>

lemma handler_rejected:
  assumes "valid_request req" and "spawn e (spawn_args cfg e req fs) fs = Inr run"
    and "fst (child_promise (outputPath_of cfg (now e)) run) = Some (Inl err)"
  shows "handler cfg sfy e req fs =
           (before_spawn cfg e req fs @ map data_log (chunks run)
              @ snd (child_promise (outputPath_of cfg (now e)) run) @ catch_block sfy err
              @ late_close (outputPath_of cfg (now e)) run,
            files_after run)"
  using assms(3) unfolding handler_child [OF assms(1,2)]
  by (cases "child_promise (outputPath_of cfg (now e)) run") simp

lemma handler_suspended:
  assumes "valid_request req" and "spawn e (spawn_args cfg e req fs) fs = Inr run"
    and "fst (child_promise (outputPath_of cfg (now e)) run) = None"
  shows "handler cfg sfy e req fs =
           (before_spawn cfg e req fs @ map data_log (chunks run)
              @ snd (child_promise (outputPath_of cfg (now e)) run),
            files_after run)"
  using assms(3) unfolding handler_child [OF assms(1,2)]
  by (cases "child_promise (outputPath_of cfg (now e)) run") simp

lemma handler_resolved:
  assumes "valid_request req" and "spawn e (spawn_args cfg e req fs) fs = Inr run"
    and "fst (child_promise (outputPath_of cfg (now e)) run) = Some (Inr u)"
  shows "handler cfg sfy e req fs =
           (before_spawn cfg e req fs @ map data_log (chunks run)
              @ snd (child_promise (outputPath_of cfg (now e)) run)
              @ [Console LOG (''Processing complete. Clip available at: ''
                    @ outputPath_of cfg (now e))]
              @ fst (res_download e (outputPath_of cfg (now e)) (files_after run)),
            snd (res_download e (outputPath_of cfg (now e)) (files_after run)))"
  using assms(3) unfolding handler_child [OF assms(1,2)]
  by (cases "child_promise (outputPath_of cfg (now e)) run") simp

lemma rejected_Json:
  assumes "valid_request req" and "spawn e (spawn_args cfg e req fs) fs = Inr run"
    and "fst (child_promise (outputPath_of cfg (now e)) run) = Some (Inl (new_Error m))"
  shows "filter is_Json (fst (handler cfg sfy e req fs))
           = [Status_Json 500 [(''error'', m), (''details'', ''No additional details.''),
                               (''fullError'', sfy (new_Error m))]]"
  by (simp add: handler_rejected [OF assms] before_spawn_filter data_log_filter
      child_promise_filter late_close_filter catch_block_Json)

lemma rejected_others:
  assumes "valid_request req" and "spawn e (spawn_args cfg e req fs) fs = Inr run"
    and "fst (child_promise (outputPath_of cfg (now e)) run) = Some (Inl err)"
  shows "filter is_Download (fst (handler cfg sfy e req fs)) = []"
    and "filter is_Unlink (fst (handler cfg sfy e req fs)) = []"
    and "filter is_Spawn (fst (handler cfg sfy e req fs)) = [Spawn ''yt-dlp'' (spawn_args cfg e req fs)]"
    and "snd (handler cfg sfy e req fs) = files_after run"
  by (simp_all add: handler_rejected [OF assms] before_spawn_filter data_log_filter
      child_promise_filter late_close_filter catch_block_others)

lemma resolved_filters:
  assumes "valid_request req" and "spawn e (spawn_args cfg e req fs) fs = Inr run"
    and "fst (child_promise (outputPath_of cfg (now e)) run) = Some (Inr u)"
  shows "filter is_Download (fst (handler cfg sfy e req fs))
           = [Download (outputPath_of cfg (now e)) ''clip.mp4'']"
    and "filter is_Json (fst (handler cfg sfy e req fs)) = []"
    and "filter is_Spawn (fst (handler cfg sfy e req fs)) = [Spawn ''yt-dlp'' (spawn_args cfg e req fs)]"
  by (simp_all add: handler_resolved [OF assms] before_spawn_filter data_log_filter
      child_promise_filter res_download_filter)

lemma suspended_filters:
  assumes "valid_request req" and "spawn e (spawn_args cfg e req fs) fs = Inr run"
    and "fst (child_promise (outputPath_of cfg (now e)) run) = None"
  shows "filter is_Download (fst (handler cfg sfy e req fs)) = []"
    and "filter is_Json (fst (handler cfg sfy e req fs)) = []"
    and "filter is_Unlink (fst (handler cfg sfy e req fs)) = []"
    and "filter is_Spawn (fst (handler cfg sfy e req fs)) = [Spawn ''yt-dlp'' (spawn_args cfg e req fs)]"
    and "snd (handler cfg sfy e req fs) = files_after run"
  by (simp_all add: handler_suspended [OF assms] before_spawn_filter data_log_filter
      child_promise_filter)

lemma throws_filters:
  assumes "valid_request req" and "spawn e (spawn_args cfg e req fs) fs = Inl m"
  shows "filter is_Json (fst (handler cfg sfy e req fs))
           = [Status_Json 500 [(''error'', m), (''details'', ''No additional details.''),
                               (''fullError'', sfy (new_Error m))]]"
    and "filter is_Download (fst (handler cfg sfy e req fs)) = []"
    and "filter is_Unlink (fst (handler cfg sfy e req fs)) = []"
    and "filter is_Spawn (fst (handler cfg sfy e req fs)) = [Spawn ''yt-dlp'' (spawn_args cfg e req fs)]"
    and "snd (handler cfg sfy e req fs) = fs"
  by (simp_all add: handler_spawn_throws [OF assms] before_spawn_filter catch_block_Json
      catch_block_others)


lemma child_promise_None_iff:
  "fst (child_promise p run) = None \<longleftrightarrow> ending run = Never"
  by (cases "ending run") (simp_all add: child_promise_def split_beta)










lemma out0_eq: "outputPath_of cfg0 1700000000000 = out0"
  by (simp add: outputPath_of_def cfg0_def out0_def string_of_nat.simps digit_char_def)

lemma cleanup_Unlinks:
  assumes "fs p = Some f"
  shows "filter is_Unlink (fst (cleanup p fs))
           = Unlink p # (if unlink_error f = None \<and> fs (p @ ''.part'') \<noteq> None
                         then [Unlink (p @ ''.part'')] else [])"
  using assms
  by (auto simp: cleanup_def unlink_if_exists_def Let_def split: option.splits)

lemma cleanup_files:
  assumes "fs p = Some f" and "unlink_error f = None"
  shows "snd (cleanup p fs) p = None"
    and "fs (p @ ''.part'') = Some g \<Longrightarrow> unlink_error g = None
         \<Longrightarrow> snd (cleanup p fs) (p @ ''.part'') = None"
  using assms
  by (auto simp: cleanup_def unlink_if_exists_def Let_def split: option.splits)

lemma res_download_cleanup:
  "filter is_Unlink (fst (res_download e p fs)) = filter is_Unlink (fst (cleanup p fs))"
  "snd (res_download e p fs) = snd (cleanup p fs)"
  by (simp_all add: res_download_def download_callback_def split_beta split: option.splits)

lemma resolved_Unlinks:
  assumes "valid_request req" and "spawn e (spawn_args cfg e req fs) fs = Inr run"
    and "fst (child_promise (outputPath_of cfg (now e)) run) = Some (Inr u)"
  shows "filter is_Unlink (fst (handler cfg sfy e req fs))
           = filter is_Unlink (fst (cleanup (outputPath_of cfg (now e)) (files_after run)))"
    and "snd (handler cfg sfy e req fs) = snd (cleanup (outputPath_of cfg (now e)) (files_after run))"
  by (simp_all add: handler_resolved [OF assms] before_spawn_filter data_log_filter
      child_promise_filter res_download_cleanup)

lemma falsy_filters:
  assumes "\<not> valid_request req"
  shows "filter is_Json (fst (handler cfg sfy e req fs)) = [Status_Json 400 missing_fields_body]"
    and "filter is_Download (fst (handler cfg sfy e req fs)) = []"
    and "filter is_Unlink (fst (handler cfg sfy e req fs)) = []"
    and "snd (handler cfg sfy e req fs) = fs"
  by (simp_all add: handler_falsy [OF assms])

text \<open>The three ways a request can end, as seen on the response object.\<close>

lemma handler_outcomes:
  "(filter is_Json (fst (handler cfg sfy e req fs)) = []
      \<and> filter is_Download (fst (handler cfg sfy e req fs)) = []
      \<and> valid_request req
      \<and> (\<exists>run. spawn e (spawn_args cfg e req fs) fs = Inr run \<and> ending run = Never))
   \<or> ((\<exists>j. filter is_Json (fst (handler cfg sfy e req fs)) = [j])
      \<and> filter is_Download (fst (handler cfg sfy e req fs)) = []
      \<and> filter is_Unlink (fst (handler cfg sfy e req fs)) = []
      \<and> snd (handler cfg sfy e req fs)
          = (if valid_request req
             then (case spawn e (spawn_args cfg e req fs) fs of
                     Inl m \<Rightarrow> fs | Inr run \<Rightarrow> files_after run)
             else fs))
   \<or> (filter is_Json (fst (handler cfg sfy e req fs)) = []
      \<and> (\<exists>d. filter is_Download (fst (handler cfg sfy e req fs)) = [d]))"
proof (cases "valid_request req")
  case False
  then show ?thesis by (simp add: falsy_filters)
next
  case v: True
  show ?thesis
  proof (cases "spawn e (spawn_args cfg e req fs) fs")
    case (Inl m)
    with v show ?thesis by (simp add: throws_filters)
  next
    case s: (Inr run)
    show ?thesis
    proof (cases "fst (child_promise (outputPath_of cfg (now e)) run)")
      case None
      then have "ending run = Never" by (simp add: child_promise_None_iff)
      with v s None show ?thesis by (simp add: suspended_filters)
    next
      case (Some r)
      show ?thesis
      proof (cases r)
        case (Inl err)
        with Some have r: "fst (child_promise (outputPath_of cfg (now e)) run) = Some (Inl err)"
          by simp
        have "filter is_Json (fst (handler cfg sfy e req fs))
                = [Status_Json 500 [(''error'', message err), (''details'', error_details err),
                                    (''fullError'', sfy err)]]"
          by (simp add: handler_rejected [OF v s r] before_spawn_filter data_log_filter
              child_promise_filter late_close_filter catch_block_Json)
        with v s rejected_others [OF v s r] show ?thesis by simp
      next
        case (Inr u)
        with Some have r: "fst (child_promise (outputPath_of cfg (now e)) run) = Some (Inr u)"
          by simp
        from resolved_filters(1,2) [OF v s r] show ?thesis by simp
      qed
    qed
  qed
qed




lemma numeral_value_snoc:
  "numeral_value (ds @ [ch]) = 10 * numeral_value ds + (of_char ch - 48)"
  by (simp add: numeral_value_def)



lemma string_of_nat_zero: "string_of_nat 0 = ''0''"
  by (simp add: string_of_nat.simps digit_char_def)




text \<open>The characterisation leaves one string only.\<close>

lemma decimal_digits_printed:
  "decimal_digits ds \<Longrightarrow> string_of_nat (numeral_value ds) = ds"
proof (induction ds rule: rev_induct)
  case Nil
  then show ?case by (simp add: decimal_digits_def)
next
  case (snoc ch ds)
  from snoc.prems have ch: "ch \<in> set ''0123456789''"
    by (simp add: decimal_digits_def)
  then have v: "of_char ch - 48 < (10::nat) \<and> digit_char (of_char ch - 48) = ch"
    by (auto simp: digit_char_def)
  show ?case
  proof (cases ds)
    case Nil
    with v show ?thesis
      by (subst string_of_nat.simps) (simp add: numeral_value_def)
  next
    case (Cons x xs)
    with snoc.prems have d: "decimal_digits ds"
      by (auto simp: decimal_digits_def)
    with snoc.IH have p: "string_of_nat (numeral_value ds) = ds" by simp
    have "numeral_value ds \<noteq> 0"
    proof
      assume "numeral_value ds = 0"
      with p have "ds = ''0''" by (simp add: string_of_nat_zero)
      with snoc.prems show False by (simp add: decimal_digits_def)
    qed
    then have big: "\<not> 10 * numeral_value ds + (of_char ch - 48) < 10" by simp
    have "(10 * numeral_value ds + (of_char ch - 48)) div 10 = numeral_value ds"
      using v by simp
    moreover have "(10 * numeral_value ds + (of_char ch - 48)) mod 10 = of_char ch - 48"
      using v by simp
    ultimately show ?thesis
      using big p v
      by (subst string_of_nat.simps) (simp add: numeral_value_snoc)
  qed
qed

lemma canonical_numeral_unique:
  assumes "canonical_numeral s c"
  shows "s = string_of_int c"
proof (cases "c < 0")
  case True
  with assms have s: "s \<noteq> []" "hd s = CHR ''-''" "decimal_digits (tl s)"
    "int (numeral_value (tl s)) = - c"
    by (simp_all add: canonical_numeral_def)
  then have "numeral_value (tl s) = nat (- c)" by simp
  with decimal_digits_printed [OF s(3)] have "string_of_nat (nat (- c)) = tl s" by simp
  with True s(1,2) show ?thesis
    by (cases s) (simp_all add: string_of_int_def)
next
  case False
  with assms have s: "decimal_digits s" "int (numeral_value s) = c"
    by (simp_all add: canonical_numeral_def)
  then have "numeral_value s = nat c" by simp
  with decimal_digits_printed [OF s(1)] False show ?thesis
    by (simp add: string_of_int_def)
qed


text \<open>
  The send step: the file is handed over, no error response is written, the output file
  is unlinked, and the \<^verbatim>\<open>.part\<close> file is unlinked when the first deletion succeeded.
\<close>

lemma send_step_cleanup:
  assumes "valid_request req"
    and "spawn e (spawn_args cfg e req fs) fs = Inr run"
    and "ending run = Close (Some 0)"
    and "files_after run (outputPath_of cfg (now e)) = Some f" and "content f \<noteq> []"
  shows "filter is_Download (fst (handler cfg sfy e req fs))
           = [Download (outputPath_of cfg (now e)) ''clip.mp4'']
       \<and> filter is_Json (fst (handler cfg sfy e req fs)) = []
       \<and> filter is_Unlink (fst (handler cfg sfy e req fs))
           = Unlink (outputPath_of cfg (now e))
             # (if unlink_error f = None
                   \<and> files_after run (outputPath_of cfg (now e) @ ''.part'') \<noteq> None
                then [Unlink (outputPath_of cfg (now e) @ ''.part'')] else [])
       \<and> (unlink_error f = None
            \<longrightarrow> snd (handler cfg sfy e req fs) (outputPath_of cfg (now e)) = None)
       \<and> (\<forall>g. unlink_error f = None
               \<and> files_after run (outputPath_of cfg (now e) @ ''.part'') = Some g
               \<and> unlink_error g = None
            \<longrightarrow> snd (handler cfg sfy e req fs) (outputPath_of cfg (now e) @ ''.part'') = None)"
proof -
  have "nonempty_file (files_after run) (outputPath_of cfg (now e))"
    using assms(4,5) by (simp add: nonempty_file_iff)
  with assms(3) have r: "fst (child_promise (outputPath_of cfg (now e)) run) = Some (Inr ())"
    by (rule child_promise_verified)
  note d = resolved_filters(1,2) [OF assms(1,2) r]
  note c = resolved_Unlinks [OF assms(1,2) r]
  show ?thesis
    using d assms(4)
      cleanup_Unlinks [of "files_after run" "outputPath_of cfg (now e)" f]
      cleanup_files [of "files_after run" "outputPath_of cfg (now e)" f]
    by (simp add: c)
qed

text \<open>Facts about the concrete requests and environments.\<close>

lemma valid_req0: "valid_request req0"
  by (simp add: valid_request_def req0_def)

lemma env_of_simps:
  "spawn (env_of run err) args fs = Inr run"
  "now (env_of run err) = 1700000000000"
  "send_error (env_of run err) = err"
  by (simp_all add: env_of_def)

lemma run_ok_verified:
  "fst (child_promise (outputPath_of cfg0 (now (env_of run_ok err))) run_ok) = Some (Inr ())"
proof -
  have "files_after run_ok out0 = Some (plain_file ''video'')"
    by (simp add: run_ok_def)
  then have "nonempty_file (files_after run_ok) (outputPath_of cfg0 (now (env_of run_ok err)))"
    by (simp add: env_of_simps out0_eq nonempty_file_iff plain_file_def)
  moreover have "ending run_ok = Close (Some 0)" by (simp add: run_ok_def)
  ultimately show ?thesis by (simp add: child_promise_verified)
qed

lemma run_locked_verified:
  "fst (child_promise (outputPath_of cfg0 (now (env_of run_locked err))) run_locked)
     = Some (Inr ())"
proof -
  have "files_after run_locked out0 = Some locked_file"
    by (simp add: run_locked_def)
  then have "nonempty_file (files_after run_locked)
               (outputPath_of cfg0 (now (env_of run_locked err)))"
    by (simp add: env_of_simps out0_eq nonempty_file_iff locked_file_def)
  moreover have "ending run_locked = Close (Some 0)" by (simp add: run_locked_def)
  ultimately show ?thesis by (simp add: child_promise_verified)
qed

text \<open>
  Three requests traced from end to end. The first is the example of the specification:
  the tool writes the file and exits with code 0, the transfer succeeds, the file is
  deleted. In the second the transfer fails and the output file cannot be deleted. In the
  third the tool cannot be started: the \<^verbatim>\<open>error\<close> event rejects the promise, the
  \<^verbatim>\<open>catch\<close> block answers, and the \<^verbatim>\<open>close\<close> event that follows only writes to the
  console.
\<close>

lemma handler_success_trace:
  "handler cfg0 sfy0 (env_of run_ok None) req0 no_files
     = ([Console LOG ''Attempting to download and clip video from https://example.com/video'',
         Console LOG ''Output path: /srv/backend/uploads/clip-1700000000000.mp4'',
         Console WARN ''Cookies file not found at /srv/backend/src/cookies.txt. Proceeding without cookies.'',
         Spawn ''yt-dlp''
           (ytDlpArgs (JStr ''https://example.com/video'') ''*00:00:10-00:00:20''
              ''/srv/backend/uploads/clip-1700000000000.mp4''),
         Console LOG ''yt-dlp download and clip successful: /srv/backend/uploads/clip-1700000000000.mp4'',
         Console LOG ''Processing complete. Clip available at: /srv/backend/uploads/clip-1700000000000.mp4'',
         Download ''/srv/backend/uploads/clip-1700000000000.mp4'' ''clip.mp4'',
         Unlink ''/srv/backend/uploads/clip-1700000000000.mp4'',
         Console LOG ''Temporary file cleanup finished.''],
        no_files)"
proof -
  have o: "outputPath_of cfg0 (now (env_of run_ok None)) = out0"
    by (simp add: env_of_simps out0_eq)
  have a: "attach_cookies cfg0 args no_files
             = (args, [Console WARN ''Cookies file not found at /srv/backend/src/cookies.txt. Proceeding without cookies.''])"
    for args
    by (simp add: attach_cookies_def no_files_def cfg0_def)
  have c: "child_promise out0 run_ok
             = (Some (Inr ()), [Console LOG (''yt-dlp download and clip successful: '' @ out0)])"
    by (simp add: child_promise_def on_close_def nonempty_file_def existsSync_def run_ok_def
        plain_file_def)
  have d: "res_download (env_of run_ok None) out0 (files_after run_ok)
             = ([Download out0 ''clip.mp4'', Unlink out0,
                 Console LOG ''Temporary file cleanup finished.''], no_files)"
    by (simp add: res_download_def download_callback_def cleanup_def unlink_if_exists_def
        env_of_simps run_ok_def plain_file_def no_files_def)
  have ch: "chunks run_ok = []" by (simp add: run_ok_def)
  have s: "spawn (env_of run_ok None) (spawn_args cfg0 (env_of run_ok None) req0 no_files)
             no_files = Inr run_ok"
    by (simp add: env_of_simps)
  have "handler cfg0 sfy0 (env_of run_ok None) req0 no_files
          = ([Console LOG ''Attempting to download and clip video from https://example.com/video'',
              Console LOG (''Output path: '' @ out0),
              Console WARN ''Cookies file not found at /srv/backend/src/cookies.txt. Proceeding without cookies.'',
              Spawn ''yt-dlp'' (ytDlpArgs (JStr ''https://example.com/video'') ''*00:00:10-00:00:20'' out0),
              Console LOG (''yt-dlp download and clip successful: '' @ out0),
              Console LOG (''Processing complete. Clip available at: '' @ out0),
              Download out0 ''clip.mp4'',
              Unlink out0,
              Console LOG ''Temporary file cleanup finished.''],
             no_files)"
    unfolding handler_resolved [OF valid_req0 s run_ok_verified] o
    by (simp add: before_spawn_def spawn_args_def o a c d ch section_of_def req0_def)
  then show ?thesis by (simp add: out0_def)
qed


lemma handler_locked_trace:
  "handler cfg0 sfy0 (env_of run_locked (Some ''EPIPE'')) req0 no_files
     = ([Console LOG ''Attempting to download and clip video from https://example.com/video'',
         Console LOG ''Output path: /srv/backend/uploads/clip-1700000000000.mp4'',
         Console WARN ''Cookies file not found at /srv/backend/src/cookies.txt. Proceeding without cookies.'',
         Spawn ''yt-dlp''
           (ytDlpArgs (JStr ''https://example.com/video'') ''*00:00:10-00:00:20''
              ''/srv/backend/uploads/clip-1700000000000.mp4''),
         Console LOG ''yt-dlp download and clip successful: /srv/backend/uploads/clip-1700000000000.mp4'',
         Console LOG ''Processing complete. Clip available at: /srv/backend/uploads/clip-1700000000000.mp4'',
         Download ''/srv/backend/uploads/clip-1700000000000.mp4'' ''clip.mp4'',
         Console ERROR ''Error sending file: EPIPE'',
         Unlink ''/srv/backend/uploads/clip-1700000000000.mp4'',
         Console ERROR ''Cleanup error: EPERM: operation not permitted''],
        files_after run_locked)"
proof -
  have o: "outputPath_of cfg0 (now (env_of run_locked (Some ''EPIPE''))) = out0"
    by (simp add: env_of_simps out0_eq)
  have a: "attach_cookies cfg0 args no_files
             = (args, [Console WARN ''Cookies file not found at /srv/backend/src/cookies.txt. Proceeding without cookies.''])"
    for args
    by (simp add: attach_cookies_def no_files_def cfg0_def)
  have c: "child_promise out0 run_locked
             = (Some (Inr ()), [Console LOG (''yt-dlp download and clip successful: '' @ out0)])"
    by (simp add: child_promise_def on_close_def nonempty_file_def existsSync_def run_locked_def
        locked_file_def)
  have d: "res_download (env_of run_locked (Some ''EPIPE'')) out0 (files_after run_locked)
             = ([Download out0 ''clip.mp4'', Console ERROR ''Error sending file: EPIPE'',
                 Unlink out0, Console ERROR ''Cleanup error: EPERM: operation not permitted''],
                files_after run_locked)"
    by (simp add: res_download_def download_callback_def cleanup_def unlink_if_exists_def
        env_of_simps run_locked_def locked_file_def)
  have ch: "chunks run_locked = []" by (simp add: run_locked_def)
  have s: "spawn (env_of run_locked (Some ''EPIPE''))
             (spawn_args cfg0 (env_of run_locked (Some ''EPIPE'')) req0 no_files) no_files
           = Inr run_locked"
    by (simp add: env_of_simps)
  have "handler cfg0 sfy0 (env_of run_locked (Some ''EPIPE'')) req0 no_files
          = ([Console LOG ''Attempting to download and clip video from https://example.com/video'',
              Console LOG (''Output path: '' @ out0),
              Console WARN ''Cookies file not found at /srv/backend/src/cookies.txt. Proceeding without cookies.'',
              Spawn ''yt-dlp'' (ytDlpArgs (JStr ''https://example.com/video'') ''*00:00:10-00:00:20'' out0),
              Console LOG (''yt-dlp download and clip successful: '' @ out0),
              Console LOG (''Processing complete. Clip available at: '' @ out0),
              Download out0 ''clip.mp4'',
              Console ERROR ''Error sending file: EPIPE'',
              Unlink out0,
              Console ERROR ''Cleanup error: EPERM: operation not permitted''],
             files_after run_locked)"
    unfolding handler_resolved [OF valid_req0 s run_locked_verified] o
    by (simp add: before_spawn_def spawn_args_def o a c d ch section_of_def req0_def)
  then show ?thesis by (simp add: out0_def)
qed

lemma handler_enoent_trace:
  "handler cfg0 sfy0 (env_of run_enoent None) req0 no_files
     = ([Console LOG ''Attempting to download and clip video from https://example.com/video'',
         Console LOG ''Output path: /srv/backend/uploads/clip-1700000000000.mp4'',
         Console WARN ''Cookies file not found at /srv/backend/src/cookies.txt. Proceeding without cookies.'',
         Spawn ''yt-dlp''
           (ytDlpArgs (JStr ''https://example.com/video'') ''*00:00:10-00:00:20''
              ''/srv/backend/uploads/clip-1700000000000.mp4''),
         Console ERROR ''Failed to start yt-dlp process: spawn yt-dlp ENOENT'',
         Console ERROR ''Error during video processing: Failed to start yt-dlp: spawn yt-dlp ENOENT'',
         Status_Json 500
           [(''error'', ''Failed to start yt-dlp: spawn yt-dlp ENOENT''),
            (''details'', ''No additional details.''), (''fullError'', ''{}'')],
         Console ERROR ''yt-dlp process exited with code -2. Stderr: ''],
        no_files)"
proof -
  have o: "outputPath_of cfg0 (now (env_of run_enoent None)) = out0"
    by (simp add: env_of_simps out0_eq)
  have a: "attach_cookies cfg0 args no_files
             = (args, [Console WARN ''Cookies file not found at /srv/backend/src/cookies.txt. Proceeding without cookies.''])"
    for args
    by (simp add: attach_cookies_def no_files_def cfg0_def)
  have c: "child_promise out0 run_enoent
             = (Some (Inl (new_Error ''Failed to start yt-dlp: spawn yt-dlp ENOENT'')),
                [Console ERROR ''Failed to start yt-dlp process: spawn yt-dlp ENOENT''])"
    by (simp add: child_promise_def run_enoent_def)
  have l: "late_close out0 run_enoent
             = [Console ERROR ''yt-dlp process exited with code -2. Stderr: '']"
    by (simp add: late_close_def on_close_def run_enoent_def code_string_def string_of_int_def
        string_of_nat.simps digit_char_def str_includes_iff bot_phrase_def)
  have ch: "chunks run_enoent = []" "files_after run_enoent = no_files"
    by (simp_all add: run_enoent_def no_files_def)
  have s: "spawn (env_of run_enoent None) (spawn_args cfg0 (env_of run_enoent None) req0 no_files)
             no_files = Inr run_enoent"
    by (simp add: env_of_simps)
  have r: "fst (child_promise (outputPath_of cfg0 (now (env_of run_enoent None))) run_enoent)
             = Some (Inl (new_Error ''Failed to start yt-dlp: spawn yt-dlp ENOENT''))"
    by (simp add: o c)
  have "handler cfg0 sfy0 (env_of run_enoent None) req0 no_files
     = ([Console LOG ''Attempting to download and clip video from https://example.com/video'',
         Console LOG (''Output path: '' @ out0),
         Console WARN ''Cookies file not found at /srv/backend/src/cookies.txt. Proceeding without cookies.'',
         Spawn ''yt-dlp'' (ytDlpArgs (JStr ''https://example.com/video'') ''*00:00:10-00:00:20'' out0),
         Console ERROR ''Failed to start yt-dlp process: spawn yt-dlp ENOENT'',
         Console ERROR ''Error during video processing: Failed to start yt-dlp: spawn yt-dlp ENOENT'',
         Status_Json 500
           [(''error'', ''Failed to start yt-dlp: spawn yt-dlp ENOENT''),
            (''details'', ''No additional details.''), (''fullError'', ''{}'')],
         Console ERROR ''yt-dlp process exited with code -2. Stderr: ''],
        no_files)"
    unfolding handler_rejected [OF valid_req0 s r] o
    by (simp add: before_spawn_def spawn_args_def o a c l ch section_of_def req0_def
        catch_block_def sfy0_def)
  then show ?thesis by (simp add: out0_def)
qed

subsection \<open>The claims\<close>

text \<open>
  Claim C1. A request in which \<^verbatim>\<open>url\<close>, \<^verbatim>\<open>startTime\<close> or \<^verbatim>\<open>endTime\<close> is missing is
  answered with status 400 and a JSON body holding an error string; this response is the
  only effect of the request, so no subprocess is spawned, and the file system is
  untouched.
\<close>

theorem missing_field_rejected:
  assumes "url req = JUndefined \<or> startTime req = JUndefined \<or> endTime req = JUndefined"
  shows "fst (handler cfg sfy e req fs)
           = [Status_Json 400 [(''error'', ''url, startTime, and endTime are required'')]]
       \<and> filter is_Spawn (fst (handler cfg sfy e req fs)) = []
       \<and> snd (handler cfg sfy e req fs) = fs"
proof -
  have "\<not> valid_request req"
    using assms by (auto simp: valid_request_def)
  then show ?thesis
    by (simp add: handler_falsy missing_fields_body_def)
qed

theorem missing_field_rejected_witness:
  "fst (handler cfg0 sfy0 (env_of run_ok None) req_missing no_files)
     = [Status_Json 400 [(''error'', ''url, startTime, and endTime are required'')]]
   \<and> filter is_Spawn (fst (handler cfg0 sfy0 (env_of run_ok None) req_missing no_files)) = []"
  using missing_field_rejected [of req_missing cfg0 sfy0 "env_of run_ok None" no_files]
  by (simp add: req_missing_def)










text \<open>
  Claim C6. A request that reaches the sending of the file attempts, whatever the outcome
  of the transfer, to delete the output file and, when present, the file of the same name
  with the suffix \<^verbatim>\<open>.part\<close>, and no failure of a deletion reaches the client. The handler
  does attempt both when the output file is deleted (\<open>send_step_cleanup\<close>), and writes no
  error response in any case. It misses the \<^verbatim>\<open>.part\<close> file when the deletion of the output
  file fails: the rejected \<^verbatim>\<open>unlinkAsync\<close> leaves the \<^verbatim>\<open>try\<close> block that holds both
  deletions. The theorem runs the handler on such a request: the tool exits with code 0
  and leaves the output file, which cannot be unlinked, and a \<^verbatim>\<open>.part\<close> file; the file is
  sent, the only deletion attempted is that of the output file, and the \<^verbatim>\<open>.part\<close> file
  stays on disk.
\<close>

theorem part_file_left_behind:
  "filter is_Download (fst (handler cfg0 sfy0 (env_of run_locked None) req0 no_files))
     = [Download out0 ''clip.mp4'']
   \<and> filter is_Json (fst (handler cfg0 sfy0 (env_of run_locked None) req0 no_files)) = []
   \<and> files_after run_locked (out0 @ ''.part'') = Some (plain_file ''x'')
   \<and> filter is_Unlink (fst (handler cfg0 sfy0 (env_of run_locked None) req0 no_files))
       = [Unlink out0]
   \<and> snd (handler cfg0 sfy0 (env_of run_locked None) req0 no_files) (out0 @ ''.part'')
       = Some (plain_file ''x'')"
proof -
  have s: "spawn (env_of run_locked None)
             (spawn_args cfg0 (env_of run_locked None) req0 no_files) no_files = Inr run_locked"
    by (simp add: env_of_simps)
  have f: "files_after run_locked out0 = Some locked_file"
    by (simp add: run_locked_def)
  have p: "files_after run_locked (out0 @ ''.part'') = Some (plain_file ''x'')"
    by (simp add: run_locked_def)
  have u: "unlink_error locked_file \<noteq> None"
    by (simp add: locked_file_def)
  have k: "snd (cleanup out0 (files_after run_locked)) = files_after run_locked"
    using f u by (auto simp: cleanup_def unlink_if_exists_def)
  show ?thesis
    using resolved_filters(1,2) [OF valid_req0 s run_locked_verified]
      resolved_Unlinks [OF valid_req0 s run_locked_verified] f p u k
      cleanup_Unlinks [of "files_after run_locked" out0 locked_file]
    by (simp add: env_of_simps out0_eq)
qed

theorem part_file_left_behind_witness:
  "Unlink (out0 @ ''.part'')
     \<notin> set (filter is_Unlink (fst (handler cfg0 sfy0 (env_of run_locked None) req0 no_files)))"
  using part_file_left_behind by simp

text \<open>
  Claim C7, as amended. A request never gets both a file and an error response, and
  never two responses: the JSON responses and the downloads of a request are at most one
  in all. Exactly one of the two outcomes, the file sent with a transfer that reports no
  error or a single error response, occurs whenever the external process, if one is
  spawned, ends and the transfer reports no error.
\<close>

theorem one_response:
  "length (filter is_Json (fst (handler cfg sfy e req fs)))
     + length (filter is_Download (fst (handler cfg sfy e req fs))) \<le> 1
   \<and> \<not> (file_streamed e (fst (handler cfg sfy e req fs))
          \<and> error_returned (fst (handler cfg sfy e req fs)))
   \<and> ((valid_request req
         \<longrightarrow> (\<forall>run. spawn e (spawn_args cfg e req fs) fs = Inr run \<longrightarrow> ending run \<noteq> Never))
        \<and> send_error e = None
      \<longrightarrow> file_streamed e (fst (handler cfg sfy e req fs))
            \<noteq> error_returned (fst (handler cfg sfy e req fs)))"
  using handler_outcomes [of cfg sfy e req fs]
  by (auto simp: file_streamed_def error_returned_def)

theorem one_response_witness:
  "file_streamed (env_of run_ok None) (fst (handler cfg0 sfy0 (env_of run_ok None) req0 no_files))
   \<noteq> error_returned (fst (handler cfg0 sfy0 (env_of run_ok None) req0 no_files))"
  using one_response [of cfg0 sfy0 "env_of run_ok None" req0 no_files]
  by (simp add: env_of_simps run_ok_def)

text \<open>
  The claim as first stated has exactly one of the two outcomes on every request. When
  the transfer of the file fails, the error is written to the console only: the file was
  not sent completely, and no error response is written.
\<close>

theorem one_response_counterexample:
  "\<not> file_streamed (env_of run_ok (Some ''EPIPE''))
        (fst (handler cfg0 sfy0 (env_of run_ok (Some ''EPIPE'')) req0 no_files))
   \<and> \<not> error_returned
        (fst (handler cfg0 sfy0 (env_of run_ok (Some ''EPIPE'')) req0 no_files))"
proof -
  have s: "spawn (env_of run_ok (Some ''EPIPE''))
             (spawn_args cfg0 (env_of run_ok (Some ''EPIPE'')) req0 no_files) no_files
           = Inr run_ok"
    by (simp add: env_of_simps)
  from resolved_filters(2) [OF valid_req0 s run_ok_verified] show ?thesis
    by (simp add: file_streamed_def error_returned_def env_of_simps)
qed

text \<open>
  Claim C8. The presence check is a truthiness test: a request whose \<^verbatim>\<open>startTime\<close> or
  \<^verbatim>\<open>endTime\<close> is present but is the number 0 or the empty string gets the same 400
  response for missing fields, and no subprocess is spawned.
\<close>

theorem falsy_field_rejected:
  assumes "startTime req = JNum Zero \<or> startTime req = JStr []
         \<or> endTime req = JNum Zero \<or> endTime req = JStr []"
  shows "fst (handler cfg sfy e req fs)
           = [Status_Json 400 [(''error'', ''url, startTime, and endTime are required'')]]
       \<and> filter is_Spawn (fst (handler cfg sfy e req fs)) = []"
proof -
  have "\<not> valid_request req"
    using assms by (auto simp: valid_request_def)
  then show ?thesis
    by (simp add: handler_falsy missing_fields_body_def)
qed

theorem falsy_field_rejected_witness:
  "fst (handler cfg0 sfy0 (env_of run_ok None) req_zero no_files)
     = [Status_Json 400 [(''error'', ''url, startTime, and endTime are required'')]]
   \<and> filter is_Spawn (fst (handler cfg0 sfy0 (env_of run_ok None) req_zero no_files)) = []"
  using falsy_field_rejected [of req_zero cfg0 sfy0 "env_of run_ok None" no_files]
  by (simp add: req_zero_def)



text \<open>
  Claim C10. Deletions happen only in the callback of \<^verbatim>\<open>res.download\<close>. A request that ends
  in an error response (400 or 500) attempts no deletion and sends no file, and the file
  system it leaves is the one it found when nothing ran, or the one the external tool
  left: whatever the tool wrote is still there.
\<close>

theorem no_cleanup_on_error:
  assumes "filter is_Json (fst (handler cfg sfy e req fs)) \<noteq> []"
  shows "filter is_Unlink (fst (handler cfg sfy e req fs)) = []
       \<and> filter is_Download (fst (handler cfg sfy e req fs)) = []
       \<and> snd (handler cfg sfy e req fs)
           = (if valid_request req
              then (case spawn e (spawn_args cfg e req fs) fs of
                      Inl m \<Rightarrow> fs | Inr run \<Rightarrow> files_after run)
              else fs)"
  using handler_outcomes [of cfg sfy e req fs] assms
  by auto

theorem no_cleanup_on_error_witness:
  "filter is_Unlink (fst (handler cfg0 sfy0 (env_of run_failed None) req0 no_files)) = []
   \<and> snd (handler cfg0 sfy0 (env_of run_failed None) req0 no_files) (out0 @ ''.part'')
       = Some (plain_file ''partial'')"
proof -
  have s: "spawn (env_of run_failed None)
             (spawn_args cfg0 (env_of run_failed None) req0 no_files) no_files
           = Inr run_failed"
    by (simp add: env_of_simps)
  have c: "ending run_failed = Close (Some 1)" by (simp add: run_failed_def)
  have ne: "Some (1::int) \<noteq> Some 0" by simp
  note r = child_promise_nonzero [OF c ne, of "outputPath_of cfg0 (now (env_of run_failed None))"]
  from rejected_Json [OF valid_req0 s r]
  have j: "filter is_Json (fst (handler cfg0 sfy0 (env_of run_failed None) req0 no_files)) \<noteq> []"
    by simp
  show ?thesis
    using no_cleanup_on_error [OF j] valid_req0 s
    by (simp add: run_failed_def)
qed

end
